theory Spec2Isabelle
  imports Main "HOL-Library.Word"
begin

unbundle bit_operations_syntax

section \<open>Swift metadata flag words of go-macho\<close>

text \<open>
  The development embeds the flag decoders and the text renderers of
  \<^verbatim>\<open>types/swift/protocols/protocols.go\<close> and the classification
  predicates of \<^verbatim>\<open>types/swift/fields/fields.go\<close>. Go's fixed-width
  unsigned integers are words of the same width: a conversion between them
  is \<open>ucast\<close>, \<open>&\<close> is \<open>AND\<close>, \<open><<\<close> is \<open>push_bit\<close> and \<open>>>\<close> on an
  unsigned operand is \<open>drop_bit\<close>. A signed \<open>int32\<close> field is a 32-bit word
  too (read with \<open>sint\<close>); the code only compares such fields with zero.
\<close>

type_synonym uint8 = "8 word"
type_synonym uint16 = "16 word"
type_synonym uint32 = "32 word"
type_synonym int32 = "32 word"

subsection \<open>The fragment of \<open>fmt.Sprintf\<close> the renderers use\<close>

text \<open>
  Every \<open>String\<close> method of the source is one call of \<open>fmt.Sprintf\<close> with
  the verbs \<open>%t\<close>, \<open>%d\<close> and \<open>%s\<close>. The interpreter below walks the
  format string as Go does: an ordinary byte is copied, \<open>%%\<close> is a percent
  sign, a verb consumes the next operand. Go's diagnostics for a wrong
  operand, a missing operand and left-over operands are kept as text, so the
  function is total as \<open>Sprintf\<close> is. Widths, flags and the other verbs of
  package \<open>fmt\<close> do not occur in the source and are not interpreted. An operand
  that has a \<open>String\<close> method is passed as the text that method returns.
\<close>

datatype fmt_arg = ABool bool | AInt int | AStr string

abbreviation (input) LF :: char where
  "LF \<equiv> CHR 0x0A"

definition digit :: "nat \<Rightarrow> char" where
  "digit d = ''0123456789'' ! d"

fun FormatUint :: "nat \<Rightarrow> string" where
  "FormatUint n =
     (if n < 10 then [digit n] else FormatUint (n div 10) @ [digit (n mod 10)])"

declare FormatUint.simps [simp del]

definition FormatInt :: "int \<Rightarrow> string" where
  "FormatInt i = (if i < 0 then CHR ''-'' # FormatUint (nat (- i)) else FormatUint (nat i))"

definition FormatBool :: "bool \<Rightarrow> string" where
  "FormatBool b = (if b then ''true'' else ''false'')"

fun arg_type :: "fmt_arg \<Rightarrow> string" where
  "arg_type (ABool b) = ''bool''"
| "arg_type (AInt i) = ''int''"
| "arg_type (AStr s) = ''string''"

fun arg_default :: "fmt_arg \<Rightarrow> string" where
  "arg_default (ABool b) = FormatBool b"
| "arg_default (AInt i) = FormatInt i"
| "arg_default (AStr s) = s"

definition bad_verb :: "char \<Rightarrow> fmt_arg \<Rightarrow> string" where
  "bad_verb v a = ''%!'' @ [v] @ ''('' @ arg_type a @ ''='' @ arg_default a @ '')''"

fun fmt_verb :: "char \<Rightarrow> fmt_arg \<Rightarrow> string" where
  "fmt_verb v (ABool b) =
     (if v = CHR ''t'' \<or> v = CHR ''v'' then FormatBool b else bad_verb v (ABool b))"
| "fmt_verb v (AInt i) =
     (if v = CHR ''d'' \<or> v = CHR ''v'' then FormatInt i else bad_verb v (AInt i))"
| "fmt_verb v (AStr s) =
     (if v = CHR ''s'' \<or> v = CHR ''v'' then s else bad_verb v (AStr s))"

fun extra_args :: "fmt_arg list \<Rightarrow> string" where
  "extra_args [] = []"
| "extra_args [a] = arg_type a @ ''='' @ arg_default a"
| "extra_args (a # b # bs) = arg_type a @ ''='' @ arg_default a @ '', '' @ extra_args (b # bs)"

fun Sprintf :: "string \<Rightarrow> fmt_arg list \<Rightarrow> string" where
  "Sprintf [] [] = []"
| "Sprintf [] (a # as) = ''%!(EXTRA '' @ extra_args (a # as) @ '')''"
| "Sprintf [c] args =
     (if c = CHR ''%'' then ''%!(NOVERB)'' @ Sprintf [] args else c # Sprintf [] args)"
| "Sprintf (c # v # rest) args =
     (if c \<noteq> CHR ''%'' then c # Sprintf (v # rest) args
      else if v = CHR ''%'' then CHR ''%'' # Sprintf rest args
      else (case args of
              [] \<Rightarrow> ''%!'' @ [v] @ ''(MISSING)'' @ Sprintf rest []
            | a # as \<Rightarrow> fmt_verb v a @ Sprintf rest as))"

text \<open>\<open>strings.HasPrefix\<close> and \<open>strings.Contains\<close>, to speak about the text of a rendering.\<close>

fun HasPrefix :: "string \<Rightarrow> string \<Rightarrow> bool" where
  "HasPrefix s [] = True"
| "HasPrefix [] (c # cs) = False"
| "HasPrefix (d # ds) (c # cs) = (d = c \<and> HasPrefix ds cs)"

fun Contains :: "string \<Rightarrow> string \<Rightarrow> bool" where
  "Contains [] sub = (sub = [])"
| "Contains (d # ds) sub = (HasPrefix (d # ds) sub \<or> Contains ds sub)"

text \<open>
  The shape the specification gives to a flag-word rendering: \<open>key: value\<close>
  pairs, separated by a comma and a space.
\<close>

fun key_value_pairs :: "(string \<times> string) list \<Rightarrow> string" where
  "key_value_pairs [] = []"
| "key_value_pairs [(k, v)] = k @ '': '' @ v"
| "key_value_pairs ((k, v) # p # ps) = k @ '': '' @ v @ '', '' @ key_value_pairs (p # ps)"

subsection \<open>Protocol context descriptor flags\<close>

type_synonym ProtocolContextDescriptorFlags = uint16

text \<open>The constants of the source are bit positions and field widths.\<close>

definition HasClassConstraint :: ProtocolContextDescriptorFlags where
  "HasClassConstraint = 0"
definition HasClassConstraint_width :: ProtocolContextDescriptorFlags where
  "HasClassConstraint_width = 1"
definition IsResilient :: ProtocolContextDescriptorFlags where
  "IsResilient = 1"
definition SpecialProtocolKind :: ProtocolContextDescriptorFlags where
  "SpecialProtocolKind = 2"
definition SpecialProtocolKind_width :: ProtocolContextDescriptorFlags where
  "SpecialProtocolKind_width = 6"

text \<open>
  The protocol descriptor header. \<open>types.ContextDescriptorFlags\<close> is declared
  in package \<open>types\<close>, which is not among the sources: the type of the
  \<open>Flags\<close> field is a parameter \<open>'cdf\<close>, and its two methods the code calls
  (\<open>KindSpecific\<close> and the text \<open>%s\<close> prints for it) are parameters of the
  functions that call them.
\<close>

record 'cdf Descriptor =
  Flags :: 'cdf
  ParentOffset :: int32
  NameOffset :: int32
  NumRequirementsInSignature :: uint32
  NumRequirements :: uint32
  AssociatedTypeNamesOffset :: int32

definition GetProtocolContextDescriptorFlags ::
  "('cdf \<Rightarrow> uint16) \<Rightarrow> 'cdf Descriptor \<Rightarrow> ProtocolContextDescriptorFlags" where
  "GetProtocolContextDescriptorFlags KindSpecific d = ucast (KindSpecific (Descriptor.Flags d))"

definition Descriptor_String :: "('cdf \<Rightarrow> string) \<Rightarrow> 'cdf Descriptor \<Rightarrow> string" where
  "Descriptor_String flags_text d =
     Sprintf (''Flags: (%s)'' @ [LF] @
              ''NumRequirementsInSignature: %d'' @ [LF] @
              ''NumRequirements:            %d'')
       [AStr (flags_text (Descriptor.Flags d)),
        AInt (uint (NumRequirementsInSignature d)),
        AInt (uint (NumRequirements d))]"

text \<open>
  Modelled from the spec: the source declares the bit positions and widths
  above but no accessor that reads them. The accessors follow the
  specification: the class-constraint bit is bit 0, the resilience bit is
  bit 1, the special protocol kind is the 6-bit field at bits 2 to 7; a
  field of width \<open>w\<close> at position \<open>p\<close> is read by shifting and masking, and
  recombining puts each extracted value back at its position.
\<close>

definition getBitField :: "ProtocolContextDescriptorFlags \<Rightarrow> uint16 \<Rightarrow> uint16 \<Rightarrow> uint16" where
  "getBitField v pos width = take_bit (unat width) (drop_bit (unat pos) v)"

definition isClassConstrained :: "ProtocolContextDescriptorFlags \<Rightarrow> bool" where
  "isClassConstrained v \<longleftrightarrow> getBitField v HasClassConstraint HasClassConstraint_width \<noteq> 0"

definition isResilient :: "ProtocolContextDescriptorFlags \<Rightarrow> bool" where
  "isResilient v \<longleftrightarrow> getBitField v IsResilient 1 \<noteq> 0"

definition getSpecialProtocolKind :: "ProtocolContextDescriptorFlags \<Rightarrow> uint16" where
  "getSpecialProtocolKind v = getBitField v SpecialProtocolKind SpecialProtocolKind_width"

definition recombine :: "bool \<Rightarrow> bool \<Rightarrow> uint16 \<Rightarrow> ProtocolContextDescriptorFlags" where
  "recombine c r k =
     push_bit (unat HasClassConstraint) (if c then 1 else 0) OR
     push_bit (unat IsResilient) (if r then 1 else 0) OR
     push_bit (unat SpecialProtocolKind) k"

subsection \<open>Generic requirement flags\<close>

type_synonym GRKind = uint8

definition GRKindProtocol :: GRKind where "GRKindProtocol = 0"
definition GRKindSameType :: GRKind where "GRKindSameType = 1"
definition GRKindBaseClass :: GRKind where "GRKindBaseClass = 2"
definition GRKindSameConformance :: GRKind where "GRKindSameConformance = 3"
definition GRKindLayout :: GRKind where "GRKindLayout = 0x1F"

type_synonym GenericRequirementFlags = uint32

definition HasKeyArgument :: "GenericRequirementFlags \<Rightarrow> bool" where
  "HasKeyArgument f \<longleftrightarrow> (f AND 0x80) \<noteq> 0"

definition HasExtraArgument :: "GenericRequirementFlags \<Rightarrow> bool" where
  "HasExtraArgument f \<longleftrightarrow> (f AND 0x40) \<noteq> 0"

definition GR_Kind :: "GenericRequirementFlags \<Rightarrow> GRKind" where
  "GR_Kind f = ucast (f AND 0x1F)"

text \<open>
  \<open>%s\<close> prints a kind through its \<open>String\<close> method, which \<open>stringer\<close>
  generates into \<^verbatim>\<open>types_string.go\<close>. That file is not among the sources; the
  renderers take the method as the parameter \<open>kind_name\<close>.
\<close>

definition GenericRequirementFlags_String ::
  "(GRKind \<Rightarrow> string) \<Rightarrow> GenericRequirementFlags \<Rightarrow> string" where
  "GenericRequirementFlags_String kind_name f =
     Sprintf ''key_arg: %t, extra_arg: %t, kind: %s''
       [ABool (HasKeyArgument f), ABool (HasExtraArgument f), AStr (kind_name (GR_Kind f))]"

record TargetGenericRequirementDescriptor =
  Flags :: GenericRequirementFlags
  Param :: int32
  TypeOrProtocolOrConformanceOrLayout :: int32

subsection \<open>Protocol requirement flags\<close>

type_synonym PRKind = uint8

definition BaseProtocol :: PRKind where "BaseProtocol = 0"
definition Method :: PRKind where "Method = 1"
definition Init :: PRKind where "Init = 2"
definition Getter :: PRKind where "Getter = 3"
definition Setter :: PRKind where "Setter = 4"
definition ReadCoroutine :: PRKind where "ReadCoroutine = 5"
definition ModifyCoroutine :: PRKind where "ModifyCoroutine = 6"
definition AssociatedTypeAccessFunction :: PRKind where
  "AssociatedTypeAccessFunction = 7"
definition AssociatedConformanceAccessFunction :: PRKind where
  "AssociatedConformanceAccessFunction = 8"

type_synonym ProtocolRequirementFlags = uint32

definition PR_Kind :: "ProtocolRequirementFlags \<Rightarrow> PRKind" where
  "PR_Kind f = ucast (f AND 0x0F)"

definition IsInstance :: "ProtocolRequirementFlags \<Rightarrow> bool" where
  "IsInstance f \<longleftrightarrow> (f AND 0x10) \<noteq> 0"

definition IsAsync :: "ProtocolRequirementFlags \<Rightarrow> bool" where
  "IsAsync f \<longleftrightarrow> (f AND 0x20) \<noteq> 0"

definition IsSignedWithAddress :: "ProtocolRequirementFlags \<Rightarrow> bool" where
  "IsSignedWithAddress f \<longleftrightarrow> PR_Kind f \<noteq> BaseProtocol"

definition ExtraDiscriminator :: "ProtocolRequirementFlags \<Rightarrow> uint16" where
  "ExtraDiscriminator f = ucast (drop_bit 16 f)"

definition IsFunctionImpl :: "ProtocolRequirementFlags \<Rightarrow> bool" where
  "IsFunctionImpl f =
     (let k = PR_Kind f in
      if k = Method \<or> k = Init \<or> k = Getter \<or> k = Setter \<or>
         k = ReadCoroutine \<or> k = ModifyCoroutine
      then \<not> IsAsync f
      else False)"

definition ProtocolRequirementFlags_String ::
  "(PRKind \<Rightarrow> string) \<Rightarrow> ProtocolRequirementFlags \<Rightarrow> string" where
  "ProtocolRequirementFlags_String kind_name f =
     Sprintf ''kind: %s, instance: %t, async: %t, signed_with_addr: %t, extra_discriminator: %d, function_impl: %t''
       [AStr (kind_name (PR_Kind f)),
        ABool (IsInstance f),
        ABool (IsAsync f),
        ABool (IsSignedWithAddress f),
        AInt (uint (ExtraDiscriminator f)),
        ABool (IsFunctionImpl f)]"

record TargetProtocolRequirement =
  Flags :: ProtocolRequirementFlags
  DefaultImplementation :: int32

subsection \<open>Conformance flags\<close>

type_synonym ConformanceFlags = uint32

definition UnusedLowBits :: ConformanceFlags where
  "UnusedLowBits = 0x07"
definition TypeMetadataKindMask :: ConformanceFlags where
  "TypeMetadataKindMask = push_bit 3 0x7"
definition TypeMetadataKindShift :: ConformanceFlags where
  "TypeMetadataKindShift = 3"
definition IsRetroactiveMask :: ConformanceFlags where
  "IsRetroactiveMask = push_bit 6 0x01"
definition IsSynthesizedNonUniqueMask :: ConformanceFlags where
  "IsSynthesizedNonUniqueMask = push_bit 7 0x01"
definition NumConditionalRequirementsMask :: ConformanceFlags where
  "NumConditionalRequirementsMask = push_bit 8 0xFF"
definition NumConditionalRequirementsShift :: ConformanceFlags where
  "NumConditionalRequirementsShift = 8"
definition HasResilientWitnessesMask :: ConformanceFlags where
  "HasResilientWitnessesMask = push_bit 16 0x01"
definition HasGenericWitnessTableMask :: ConformanceFlags where
  "HasGenericWitnessTableMask = push_bit 17 0x01"

type_synonym referenceKind = uint32

definition DirectTypeDescriptor :: referenceKind where "DirectTypeDescriptor = 0x00"
definition IndirectTypeDescriptor :: referenceKind where "IndirectTypeDescriptor = 0x01"
definition DirectObjCClassName :: referenceKind where "DirectObjCClassName = 0x02"
definition IndirectObjCClass :: referenceKind where "IndirectObjCClass = 0x03"

definition IsRetroactive :: "ConformanceFlags \<Rightarrow> bool" where
  "IsRetroactive f \<longleftrightarrow> f AND IsRetroactiveMask \<noteq> 0"

definition IsSynthesizedNonUnique :: "ConformanceFlags \<Rightarrow> bool" where
  "IsSynthesizedNonUnique f \<longleftrightarrow> (f AND IsSynthesizedNonUniqueMask) \<noteq> 0"

text \<open>
  The result type \<open>int\<close> of Go has 32 or 64 bits; the converted value is a
  shifted 32-bit word, read as an unsigned number.
\<close>

definition GetNumConditionalRequirements :: "ConformanceFlags \<Rightarrow> int" where
  "GetNumConditionalRequirements f =
     uint (drop_bit (unat NumConditionalRequirementsShift) (f AND NumConditionalRequirementsMask))"

definition HasResilientWitnesses :: "ConformanceFlags \<Rightarrow> bool" where
  "HasResilientWitnesses f \<longleftrightarrow> (f AND HasResilientWitnessesMask) \<noteq> 0"

definition HasGenericWitnessTable :: "ConformanceFlags \<Rightarrow> bool" where
  "HasGenericWitnessTable f \<longleftrightarrow> (f AND HasGenericWitnessTableMask) \<noteq> 0"

definition GetTypeReferenceKind :: "ConformanceFlags \<Rightarrow> referenceKind" where
  "GetTypeReferenceKind f =
     drop_bit (unat TypeMetadataKindShift) (f AND TypeMetadataKindMask)"

definition ConformanceFlags_String ::
  "(referenceKind \<Rightarrow> string) \<Rightarrow> ConformanceFlags \<Rightarrow> string" where
  "ConformanceFlags_String kind_name f =
     Sprintf ''retroactive: %t, synthesized_nonunique: %t, num_cond_reqs: %d, has_resilient_witnesses: %t, has_generic_witness_table: %t, type_reference_kind: %s''
       [ABool (IsRetroactive f),
        ABool (IsSynthesizedNonUnique f),
        AInt (GetNumConditionalRequirements f),
        ABool (HasResilientWitnesses f),
        ABool (HasGenericWitnessTable f),
        AStr (kind_name (GetTypeReferenceKind f))]"

subsection \<open>The kind names\<close>

text \<open>
  Modelled from the spec: the \<open>String\<close> methods of \<open>GRKind\<close>, \<open>PRKind\<close> and
  \<open>referenceKind\<close> are generated by \<open>stringer\<close> into \<^verbatim>\<open>types_string.go\<close>,
  which is not among the sources. The specification names the variants (the
  generator is run with \<open>-trimprefix=GRKind\<close>, so a generic-requirement kind
  is named without that prefix) and says that an unknown discriminant renders
  its raw numeric form rather than failing: a named value renders its name,
  any other value renders the type's name with the decimal value in
  parentheses, as \<open>stringer\<close> writes it.
\<close>

definition GRKind_String :: "GRKind \<Rightarrow> string" where
  "GRKind_String i =
     (if i = GRKindProtocol then ''Protocol''
      else if i = GRKindSameType then ''SameType''
      else if i = GRKindBaseClass then ''BaseClass''
      else if i = GRKindSameConformance then ''SameConformance''
      else if i = GRKindLayout then ''Layout''
      else ''GRKind('' @ FormatInt (uint i) @ '')'')"

definition PRKind_String :: "PRKind \<Rightarrow> string" where
  "PRKind_String i =
     (if i = BaseProtocol then ''BaseProtocol''
      else if i = Method then ''Method''
      else if i = Init then ''Init''
      else if i = Getter then ''Getter''
      else if i = Setter then ''Setter''
      else if i = ReadCoroutine then ''ReadCoroutine''
      else if i = ModifyCoroutine then ''ModifyCoroutine''
      else if i = AssociatedTypeAccessFunction then ''AssociatedTypeAccessFunction''
      else if i = AssociatedConformanceAccessFunction then ''AssociatedConformanceAccessFunction''
      else ''PRKind('' @ FormatInt (uint i) @ '')'')"

definition referenceKind_String :: "referenceKind \<Rightarrow> string" where
  "referenceKind_String i =
     (if i = DirectTypeDescriptor then ''DirectTypeDescriptor''
      else if i = IndirectTypeDescriptor then ''IndirectTypeDescriptor''
      else if i = DirectObjCClassName then ''DirectObjCClassName''
      else if i = IndirectObjCClass then ''IndirectObjCClass''
      else ''referenceKind('' @ FormatInt (uint i) @ '')'')"

subsection \<open>Protocols\<close>

text \<open>
  \<open>Protocol\<close> embeds \<open>Descriptor\<close> and points to its parent. The pointer is
  an \<open>option\<close>: \<open>None\<close> is Go's \<open>nil\<close>. A value of the datatype is a finite
  chain of parents; a cyclic chain of pointers, on which \<open>String\<close> would not
  return, is not a value of it.
\<close>

datatype 'cdf Protocol = MkProtocol
  (Name: string)
  (AssociatedType: string)
  (Parent: "'cdf Protocol option")
  (Descriptor: "'cdf Descriptor")
  (SignatureRequirements: "TargetGenericRequirementDescriptor list")
  (Requirements: "TargetProtocolRequirement list")

text \<open>
  \<open>%s\<close> on the parent pointer calls \<open>String\<close> of the protocol it points
  to; on a \<open>nil\<close> pointer package \<open>fmt\<close> recovers from the panic of the
  call and prints \<open><nil>\<close>.
\<close>

fun Protocol_String :: "('cdf \<Rightarrow> string) \<Rightarrow> 'cdf Protocol \<Rightarrow> string" where
  "Protocol_String flags_text (MkProtocol name assoc par d sigs reqs) =
     (let associateType =
            (if AssociatedTypeNamesOffset d \<noteq> 0
             then Sprintf (''AssociatedType: %s'' @ [LF]) [AStr assoc]
             else []);
          parent =
            (if ParentOffset d \<noteq> 0
             then Sprintf ([LF] @ ''---'' @ [LF] @ ''Parent %s'' @ [LF])
                    [AStr (case par of
                             None \<Rightarrow> ''<nil>''
                           | Some q \<Rightarrow> Protocol_String flags_text q)]
             else [])
      in Sprintf (''Name:           %s'' @ [LF] @ ''%s'' @ ''%s%s'')
           [AStr name, AStr associateType, AStr (Descriptor_String flags_text d), AStr parent])"

text \<open>A context-flags text for concrete renderings: the flags as a decimal number.\<close>

definition decimal_flags :: "uint32 \<Rightarrow> string" where
  "decimal_flags w = FormatInt (uint w)"

subsection \<open>Field descriptors\<close>

type_synonym FieldDescriptorKind = uint16

definition Struct :: FieldDescriptorKind where "Struct = 0"
definition Class :: FieldDescriptorKind where "Class = 1"
definition Enum :: FieldDescriptorKind where "Enum = 2"
definition MultiPayloadEnum :: FieldDescriptorKind where "MultiPayloadEnum = 3"
definition Protocol :: FieldDescriptorKind where "Protocol = 4"
definition ClassProtocol :: FieldDescriptorKind where "ClassProtocol = 5"
definition ObjCProtocol :: FieldDescriptorKind where "ObjCProtocol = 6"
definition ObjCClass :: FieldDescriptorKind where "ObjCClass = 7"

type_synonym FieldRecordFlags = uint32

record FDHeader =
  MangledTypeNameOffset :: int32
  SuperclassOffset :: int32
  Kind :: FieldDescriptorKind
  FieldRecordSize :: uint16
  NumFields :: uint32

record FieldRecord =
  Name :: string
  MangledType :: string
  Flags :: string

record FieldRecordType =
  Flags :: FieldRecordFlags
  MangledTypeNameOffset :: int32
  FieldNameOffset :: int32

text \<open>\<open>FieldDescriptor\<close> embeds \<open>FDHeader\<close>: the record extends it, so that the header's fields are fields of the descriptor.\<close>

record FieldDescriptor = FDHeader +
  FieldRecords :: "FieldRecordType list"

record Field =
  Address :: "64 word"
  MangledType :: string
  SuperClass :: string
  Kind :: string
  Records :: "FieldRecord list"
  Offset :: "64 word"
  Descriptor :: FieldDescriptor

definition IsEnum :: "Field \<Rightarrow> bool" where
  "IsEnum f \<longleftrightarrow>
     FDHeader.Kind (Field.Descriptor f) = Enum \<or>
     FDHeader.Kind (Field.Descriptor f) = MultiPayloadEnum"

definition IsClass :: "Field \<Rightarrow> bool" where
  "IsClass f \<longleftrightarrow>
     FDHeader.Kind (Field.Descriptor f) = Class \<or>
     FDHeader.Kind (Field.Descriptor f) = ObjCClass"

definition IsProtocol :: "Field \<Rightarrow> bool" where
  "IsProtocol f \<longleftrightarrow>
     FDHeader.Kind (Field.Descriptor f) = Protocol \<or>
     FDHeader.Kind (Field.Descriptor f) = ClassProtocol \<or>
     FDHeader.Kind (Field.Descriptor f) = ObjCProtocol"

text \<open>
  Two concrete protocols for the renderer: a protocol with one associated
  type and no parent, and a protocol without associated types whose parent
  it is.
\<close>

definition Base_protocol :: "uint32 Protocol" where
  "Base_protocol =
     MkProtocol ''Base'' ''Element'' None
       \<lparr>Descriptor.Flags = 3, ParentOffset = 0, NameOffset = 16,
        NumRequirementsInSignature = 0, NumRequirements = 0,
        AssociatedTypeNamesOffset = 24\<rparr> [] []"

definition Child_protocol :: "uint32 Protocol" where
  "Child_protocol =
     MkProtocol ''Child'' [] (Some Base_protocol)
       \<lparr>Descriptor.Flags = 3, ParentOffset = - 64, NameOffset = 16,
        NumRequirementsInSignature = 0, NumRequirements = 0,
        AssociatedTypeNamesOffset = 0\<rparr> [] []"

text \<open>A field value whose descriptor has a given kind and no records.\<close>

definition field_of_kind :: "FieldDescriptorKind \<Rightarrow> Field" where
  "field_of_kind k =
     \<lparr>Address = 0, Field.MangledType = [], SuperClass = [], Field.Kind = [], Records = [],
      Offset = 0,
      Field.Descriptor =
        \<lparr>FDHeader.MangledTypeNameOffset = 8, SuperclassOffset = 0, FDHeader.Kind = k,
         FieldRecordSize = 12, NumFields = 0, FieldRecords = []\<rparr>\<rparr>"

section \<open>Properties\<close>

subsection \<open>Bit fields of a 32-bit word\<close>

lemma shifted_mask_bit:
  "bit (push_bit m (mask k :: 32 word)) n \<longleftrightarrow> m \<le> n \<and> n < 32 \<and> n < m + k"
  by (auto simp add: bit_push_bit_iff bit_mask_iff)

lemma masked_field:
  "drop_bit m ((f :: 32 word) AND push_bit m (mask k)) = take_bit k (drop_bit m f)"
  by (rule bit_word_eqI)
     (auto simp add: bit_drop_bit_eq bit_and_iff bit_take_bit_iff shifted_mask_bit
           dest: bit_imp_le_length)

lemma unat_field:
  "unat (take_bit k (drop_bit m (f :: 32 word))) = (unat f div 2 ^ m) mod 2 ^ k"
  unfolding unsigned_take_bit_eq unat_drop_bit_eq
  by (simp add: take_bit_eq_mod drop_bit_eq_div)

lemma single_bit: "((f :: 32 word) AND 2 ^ n \<noteq> 0) = bit f n"
  by (simp add: and_exp_eq_0_iff_not_bit)

lemma bits_agree_field:
  "(\<forall>i. m \<le> i \<and> i < m + k \<longrightarrow> bit (f :: 32 word) i = bit (g :: 32 word) i)
   \<longleftrightarrow> take_bit k (drop_bit m f) = take_bit k (drop_bit m g)"
proof
  assume h: "\<forall>i. m \<le> i \<and> i < m + k \<longrightarrow> bit f i = bit g i"
  show "take_bit k (drop_bit m f) = take_bit k (drop_bit m g)"
  proof (rule bit_word_eqI)
    fix n
    have "n < k \<Longrightarrow> bit f (m + n) = bit g (m + n)"
      using h by simp
    then show "bit (take_bit k (drop_bit m f)) n = bit (take_bit k (drop_bit m g)) n"
      by (auto simp add: bit_take_bit_iff bit_drop_bit_eq)
  qed
next
  assume e: "take_bit k (drop_bit m f) = take_bit k (drop_bit m g)"
  show "\<forall>i. m \<le> i \<and> i < m + k \<longrightarrow> bit f i = bit g i"
  proof (intro allI impI)
    fix i
    assume i: "m \<le> i \<and> i < m + k"
    then obtain j where j: "i = m + j"
      using le_Suc_ex by blast
    with i have jk: "j < k"
      by simp
    have "bit (take_bit k (drop_bit m f)) j = bit (take_bit k (drop_bit m g)) j"
      using e by simp
    then show "bit f i = bit g i"
      using j jk by (simp add: bit_take_bit_iff bit_drop_bit_eq)
  qed
qed

lemma bits_agree_low:
  "(\<forall>i<n. bit (f :: 32 word) i = bit (g :: 32 word) i) \<longleftrightarrow> take_bit n f = take_bit n g"
  using bits_agree_field [of 0 n f g] by simp

lemma upper_half:
  "take_bit 16 (drop_bit 16 (f :: 32 word)) = drop_bit 16 f"
  by (rule bit_word_eqI)
     (auto simp add: bit_take_bit_iff bit_drop_bit_eq dest: bit_imp_le_length)

lemma bits_agree_high:
  "(\<forall>i. 16 \<le> i \<and> i < 32 \<longrightarrow> bit (f :: 32 word) i = bit (g :: 32 word) i)
   \<longleftrightarrow> drop_bit 16 f = drop_bit 16 g"
  using bits_agree_field [of 16 16 f g] by (simp add: upper_half)

lemma FormatInt_nat: "FormatInt (int n) = FormatUint n"
  by (simp add: FormatInt_def)

subsection \<open>Protocol context descriptor flags\<close>

lemmas context_flag_positions =
  HasClassConstraint_def HasClassConstraint_width_def IsResilient_def
  SpecialProtocolKind_def SpecialProtocolKind_width_def

lemma isClassConstrained_bit: "isClassConstrained v = bit v 0"
  by (simp add: isClassConstrained_def getBitField_def context_flag_positions
        bit_0 odd_iff_mod_2_eq_one)

lemma isResilient_bit: "isResilient v = bit v 1"
  by (simp add: isResilient_def getBitField_def context_flag_positions
        bit_iff_odd_drop_bit odd_iff_mod_2_eq_one)

lemma getSpecialProtocolKind_field: "getSpecialProtocolKind v = take_bit 6 (drop_bit 2 v)"
  by (simp add: getSpecialProtocolKind_def getBitField_def context_flag_positions)

lemma bit_of_flag: "bit (if c then 1 else 0 :: 16 word) n \<longleftrightarrow> c \<and> n = 0"
  by (simp add: bit_1_iff)

lemma bit_of_shifted_flag:
  "bit (push_bit 1 (if r then 1 else 0 :: 16 word)) n \<longleftrightarrow> r \<and> n = 1"
  by (cases r) (auto simp add: bit_push_bit_iff bit_1_iff bit_2_iff)

lemma bit_of_shifted_kind:
  "bit (push_bit 2 (take_bit 6 (drop_bit 2 (v :: 16 word)))) n \<longleftrightarrow> 2 \<le> n \<and> n < 8 \<and> bit v n"
proof (cases "2 \<le> n")
  case True
  then obtain m where n: "n = 2 + m"
    using le_Suc_ex by blast
  show ?thesis
    unfolding n
    by (auto simp add: bit_push_bit_iff bit_take_bit_iff bit_drop_bit_eq dest: bit_imp_le_length)
next
  case False
  then show ?thesis
    by (simp add: bit_push_bit_iff)
qed

lemma recombine_positions:
  "recombine c r k = (if c then 1 else 0) OR push_bit 1 (if r then 1 else 0) OR push_bit 2 k"
  by (simp add: recombine_def context_flag_positions)

lemma recombine_extracted:
  "recombine (isClassConstrained v) (isResilient v) (getSpecialProtocolKind v) = take_bit 8 v"
proof (rule bit_word_eqI)
  fix n :: nat
  have d: "n < 8 \<longleftrightarrow> n = 0 \<or> n = 1 \<or> (2 \<le> n \<and> n < 8)"
    by arith
  show "bit (recombine (isClassConstrained v) (isResilient v) (getSpecialProtocolKind v)) n
        = bit (take_bit 8 v) n"
    unfolding isClassConstrained_bit isResilient_bit getSpecialProtocolKind_field
      recombine_positions bit_or_iff bit_of_flag bit_of_shifted_flag bit_of_shifted_kind
      bit_take_bit_iff
    using d by blast
qed

lemma low_byte: "(v :: 16 word) AND 0xFF = take_bit 8 v"
  by (simp add: take_bit_eq_mask mask_eq_exp_minus_1)

text \<open>
  C1, as stated: extracting the class-constraint bit, the resilience bit and
  the 6-bit special-protocol-kind field of a 16-bit kind-specific flag value
  and recombining them gives back the value. It fails for the value
  \<open>0x0100\<close>, whose only set bit lies outside the three fields: the
  recombined value is 0.
\<close>

theorem context_flags_roundtrip_counterexample:
  "recombine (isClassConstrained 0x0100) (isResilient 0x0100) (getSpecialProtocolKind 0x0100)
   \<noteq> 0x0100"
  by (simp add: recombine_extracted)

text \<open>
  C1, amended: for every 16-bit kind-specific flag value, also one read from
  a descriptor by \<open>GetProtocolContextDescriptorFlags\<close>, recombining the three
  extracted fields gives the low eight bits of the value (bits 0 to 7), with
  bits 8 to 15 clear.
\<close>

theorem context_flags_roundtrip_low_byte:
  "recombine (isClassConstrained v) (isResilient v) (getSpecialProtocolKind v) = v AND 0xFF \<and>
   (let w = GetProtocolContextDescriptorFlags KindSpecific d
    in recombine (isClassConstrained w) (isResilient w) (getSpecialProtocolKind w) = w AND 0xFF)"
  by (simp add: recombine_extracted low_byte Let_def)

subsection \<open>Protocol requirement flags\<close>

lemmas PRKind_values =
  BaseProtocol_def Method_def Init_def Getter_def Setter_def ReadCoroutine_def
  ModifyCoroutine_def AssociatedTypeAccessFunction_def
  AssociatedConformanceAccessFunction_def

lemma low_nibble: "(f :: 32 word) AND 0x0F = take_bit 4 f"
  by (simp add: take_bit_eq_mask mask_eq_exp_minus_1)

lemma PR_Kind_field: "PR_Kind f = ucast (take_bit 4 f)"
  by (simp add: PR_Kind_def low_nibble)

lemma PR_Kind_unat: "unat (PR_Kind f) = unat f mod 16"
  by (simp add: PR_Kind_field unsigned_ucast_eq unsigned_take_bit_eq take_bit_eq_mod unat_mod)

lemma IsInstance_bit: "IsInstance f = bit f 4"
  using single_bit [of f 4] by (simp add: IsInstance_def)

lemma IsAsync_bit: "IsAsync f = bit f 5"
  using single_bit [of f 5] by (simp add: IsAsync_def)

lemma ExtraDiscriminator_unat: "unat (ExtraDiscriminator f) = unat f div 65536"
proof -
  have "unat f div 65536 < 65536"
    using unsigned_less [of f, where 'a = nat] by simp
  then show ?thesis
    by (simp add: ExtraDiscriminator_def unsigned_ucast_eq unat_drop_bit_eq drop_bit_eq_div
          take_bit_eq_mod unat_div)
qed

lemma IsFunctionImpl_bits:
  "IsFunctionImpl f \<longleftrightarrow> (1 \<le> unat f mod 16 \<and> unat f mod 16 \<le> 6) \<and> \<not> bit f 5"
  unfolding IsFunctionImpl_def Let_def IsAsync_bit PRKind_values
  by (simp add: word_unat_eq_iff PR_Kind_unat)

text \<open>
  C2: a protocol-requirement flag word whose low four bits hold the kind
  Getter (3), whose instance bit (bit 4, \<open>0x10\<close>) is set, whose async bit
  (bit 5, \<open>0x20\<close>) is clear and whose upper sixteen bits are \<open>0x1234\<close> decodes
  to kind Getter, instance true, async false, extra discriminator \<open>0x1234\<close> and
  function-impl true, whatever its bits 6 to 15 are.
\<close>

theorem getter_flag_word_decodes:
  assumes "unat f mod 16 = 3" and "bit f 4" and "\<not> bit f 5" and "unat f div 65536 = 0x1234"
  shows "PR_Kind f = Getter \<and> IsInstance f = True \<and> IsAsync f = False \<and>
         ExtraDiscriminator f = 0x1234 \<and> IsFunctionImpl f = True"
  using assms
  by (simp add: word_unat_eq_iff PR_Kind_unat IsInstance_bit IsAsync_bit
        ExtraDiscriminator_unat IsFunctionImpl_bits Getter_def)

theorem getter_flag_word_decodes_witness:
  "unat (0x12340013 :: 32 word) mod 16 = 3 \<and> bit (0x12340013 :: 32 word) 4 \<and>
   \<not> bit (0x12340013 :: 32 word) 5 \<and> unat (0x12340013 :: 32 word) div 65536 = 0x1234 \<and>
   PR_Kind 0x12340013 = Getter \<and> IsInstance 0x12340013 = True \<and>
   IsAsync 0x12340013 = False \<and> ExtraDiscriminator 0x12340013 = 0x1234 \<and>
   IsFunctionImpl 0x12340013 = True"
  using getter_flag_word_decodes [of "0x12340013"] by simp

text \<open>
  C3: \<open>IsFunctionImpl\<close> is true exactly when the decoded kind is Method, Init,
  Getter, Setter, ReadCoroutine or ModifyCoroutine (the values 1 to 6 of the
  low four bits) and the async bit is clear; for BaseProtocol,
  AssociatedTypeAccessFunction, AssociatedConformanceAccessFunction and every
  unnamed value (9 to 15) it is false, whatever the async bit is.
\<close>

theorem IsFunctionImpl_exactly:
  "(IsFunctionImpl f \<longleftrightarrow>
      PR_Kind f \<in> {Method, Init, Getter, Setter, ReadCoroutine, ModifyCoroutine} \<and> \<not> IsAsync f) \<and>
   (IsFunctionImpl f \<longleftrightarrow> unat f mod 16 \<in> {1..6} \<and> \<not> bit f 5) \<and>
   unat (PR_Kind f) < 16 \<and>
   (PR_Kind f \<in> {BaseProtocol, AssociatedTypeAccessFunction, AssociatedConformanceAccessFunction}
      \<or> 8 < unat (PR_Kind f) \<longrightarrow> IsFunctionImpl f = False)"
proof (intro conjI)
  show "IsFunctionImpl f \<longleftrightarrow>
      PR_Kind f \<in> {Method, Init, Getter, Setter, ReadCoroutine, ModifyCoroutine} \<and> \<not> IsAsync f"
    by (auto simp add: IsFunctionImpl_def Let_def)
  show "IsFunctionImpl f \<longleftrightarrow> unat f mod 16 \<in> {1..6} \<and> \<not> bit f 5"
    by (simp add: IsFunctionImpl_bits)
  show "unat (PR_Kind f) < 16"
    by (simp add: PR_Kind_unat)
  show "PR_Kind f \<in> {BaseProtocol, AssociatedTypeAccessFunction, AssociatedConformanceAccessFunction}
      \<or> 8 < unat (PR_Kind f) \<longrightarrow> IsFunctionImpl f = False"
    by (auto simp add: IsFunctionImpl_def Let_def PRKind_values)
qed

theorem IsFunctionImpl_exactly_witness:
  "PR_Kind 0x27 = AssociatedTypeAccessFunction \<and> IsFunctionImpl 0x27 = False \<and>
   8 < unat (PR_Kind 0x0F) \<and> IsFunctionImpl 0x0F = False \<and>
   PR_Kind 0x00 = BaseProtocol \<and> IsFunctionImpl 0x00 = False"
  using IsFunctionImpl_exactly [of "0x27"] IsFunctionImpl_exactly [of "0x0F"]
    IsFunctionImpl_exactly [of "0x00"]
  by (simp add: PR_Kind_def PRKind_values)

text \<open>
  C10: each decoder of the protocol-requirement flag word reads its own bits
  only. Two words that agree on bits 0 to 3 have the same \<open>Kind\<close>; on bit 4,
  the same \<open>IsInstance\<close>; on bit 5, the same \<open>IsAsync\<close>; on bits 16 to 31, the
  same \<open>ExtraDiscriminator\<close>.
\<close>

theorem requirement_subfields_independent:
  "((\<forall>i<4. bit f i = bit g i) \<longrightarrow> PR_Kind f = PR_Kind g) \<and>
   (bit f 4 = bit g 4 \<longrightarrow> IsInstance f = IsInstance g) \<and>
   (bit f 5 = bit g 5 \<longrightarrow> IsAsync f = IsAsync g) \<and>
   ((\<forall>i. 16 \<le> i \<and> i < 32 \<longrightarrow> bit f i = bit g i) \<longrightarrow>
      ExtraDiscriminator f = ExtraDiscriminator g)"
  by (simp add: bits_agree_low bits_agree_high PR_Kind_field IsInstance_bit IsAsync_bit
        ExtraDiscriminator_def)

theorem requirement_subfields_independent_witness:
  "take_bit 4 (0x12340013 :: 32 word) = take_bit 4 (0xFFFFFFC3 :: 32 word) \<and>
   PR_Kind 0x12340013 = PR_Kind 0xFFFFFFC3 \<and>
   bit (0x12340013 :: 32 word) 4 = bit (0x0000FFDC :: 32 word) 4 \<and>
   IsInstance 0x12340013 = IsInstance 0x0000FFDC \<and>
   bit (0x12340013 :: 32 word) 5 = bit (0x0000FFDC :: 32 word) 5 \<and>
   IsAsync 0x12340013 = IsAsync 0x0000FFDC \<and>
   drop_bit 16 (0x12340013 :: 32 word) = drop_bit 16 (0x1234FFEC :: 32 word) \<and>
   ExtraDiscriminator 0x12340013 = ExtraDiscriminator 0x1234FFEC"
proof -
  have t4: "take_bit 4 (0x12340013 :: 32 word) = take_bit 4 (0xFFFFFFC3 :: 32 word)"
    by simp
  have d16: "drop_bit 16 (0x12340013 :: 32 word) = drop_bit 16 (0x1234FFEC :: 32 word)"
    by simp
  have low: "\<forall>i<4. bit (0x12340013 :: 32 word) i = bit (0xFFFFFFC3 :: 32 word) i"
    using t4 by (simp only: bits_agree_low)
  have high:
    "\<forall>i. 16 \<le> i \<and> i < 32 \<longrightarrow> bit (0x12340013 :: 32 word) i = bit (0x1234FFEC :: 32 word) i"
    using d16 by (simp only: bits_agree_high)
  have b4: "bit (0x12340013 :: 32 word) 4 = bit (0x0000FFDC :: 32 word) 4"
    by simp
  have b5: "bit (0x12340013 :: 32 word) 5 = bit (0x0000FFDC :: 32 word) 5"
    by simp
  note kind = requirement_subfields_independent
    [of "0x12340013" "0xFFFFFFC3", THEN conjunct1, THEN mp, OF low]
  note inst = requirement_subfields_independent
    [of "0x12340013" "0x0000FFDC", THEN conjunct2, THEN conjunct1, THEN mp, OF b4]
  note async = requirement_subfields_independent
    [of "0x12340013" "0x0000FFDC", THEN conjunct2, THEN conjunct2, THEN conjunct1, THEN mp, OF b5]
  note extra = requirement_subfields_independent
    [of "0x12340013" "0x1234FFEC", THEN conjunct2, THEN conjunct2, THEN conjunct2, THEN mp, OF high]
  show ?thesis
    by (intro conjI) (fact t4 kind b4 inst b5 async d16 extra)+
qed

subsection \<open>Conformance flags\<close>

lemma GetNumConditionalRequirements_field:
  "GetNumConditionalRequirements f = uint (take_bit 8 (drop_bit 8 f))"
proof -
  have m: "NumConditionalRequirementsMask = push_bit 8 (mask 8)"
    by (simp add: NumConditionalRequirementsMask_def mask_eq_exp_minus_1)
  have s: "unat NumConditionalRequirementsShift = 8"
    by (simp add: NumConditionalRequirementsShift_def)
  show ?thesis
    unfolding GetNumConditionalRequirements_def m s masked_field ..
qed

lemma GetNumConditionalRequirements_unat:
  "GetNumConditionalRequirements f = int ((unat f div 256) mod 256)"
  using unat_field [of 8 8 f] by (simp add: GetNumConditionalRequirements_field uint_nat)

lemma GetTypeReferenceKind_field: "GetTypeReferenceKind f = take_bit 3 (drop_bit 3 f)"
proof -
  have m: "TypeMetadataKindMask = push_bit 3 (mask 3)"
    by (simp add: TypeMetadataKindMask_def mask_eq_exp_minus_1)
  have s: "unat TypeMetadataKindShift = 3"
    by (simp add: TypeMetadataKindShift_def)
  show ?thesis
    unfolding GetTypeReferenceKind_def m s masked_field ..
qed

lemma GetTypeReferenceKind_unat: "unat (GetTypeReferenceKind f) = (unat f div 8) mod 8"
  using unat_field [of 3 3 f] by (simp add: GetTypeReferenceKind_field)

text \<open>
  C4: \<open>GetNumConditionalRequirements\<close> returns bits 8 to 15 of the flag word,
  read as an unsigned number between 0 and 255, and two flag words that agree
  on bits 8 to 15 give the same result, however their other bits differ.
\<close>

theorem GetNumConditionalRequirements_bits_8_15:
  "GetNumConditionalRequirements f = int ((unat f div 2 ^ 8) mod 2 ^ 8) \<and>
   0 \<le> GetNumConditionalRequirements f \<and> GetNumConditionalRequirements f \<le> 255 \<and>
   ((\<forall>i. 8 \<le> i \<and> i < 16 \<longrightarrow> bit g i = bit f i) \<longrightarrow>
      GetNumConditionalRequirements g = GetNumConditionalRequirements f)"
proof (intro conjI impI)
  show "GetNumConditionalRequirements f = int ((unat f div 2 ^ 8) mod 2 ^ 8)"
    by (simp add: GetNumConditionalRequirements_unat)
  show "0 \<le> GetNumConditionalRequirements f"
    by (simp add: GetNumConditionalRequirements_unat)
  have "(unat f div 256) mod 256 < 256"
    by simp
  then show "GetNumConditionalRequirements f \<le> 255"
    unfolding GetNumConditionalRequirements_unat by linarith
  assume "\<forall>i. 8 \<le> i \<and> i < 16 \<longrightarrow> bit g i = bit f i"
  then have "take_bit 8 (drop_bit 8 g) = take_bit 8 (drop_bit 8 f)"
    using bits_agree_field [of 8 8 g f] by simp
  then show "GetNumConditionalRequirements g = GetNumConditionalRequirements f"
    by (simp add: GetNumConditionalRequirements_field)
qed

theorem GetNumConditionalRequirements_bits_8_15_witness:
  "take_bit 8 (drop_bit 8 (0xFFFFABFF :: 32 word)) = take_bit 8 (drop_bit 8 (0x0000AB00 :: 32 word)) \<and>
   GetNumConditionalRequirements 0xFFFFABFF = GetNumConditionalRequirements 0x0000AB00 \<and>
   GetNumConditionalRequirements 0x0000AB00 = 171"
proof -
  have field: "take_bit 8 (drop_bit 8 (0xFFFFABFF :: 32 word))
      = take_bit 8 (drop_bit 8 (0x0000AB00 :: 32 word))"
    by simp
  then have agree:
    "\<forall>i. 8 \<le> i \<and> i < 16 \<longrightarrow> bit (0xFFFFABFF :: 32 word) i = bit (0x0000AB00 :: 32 word) i"
    using bits_agree_field [of 8 8 "0xFFFFABFF" "0x0000AB00"] by simp
  note same = GetNumConditionalRequirements_bits_8_15
    [of "0x0000AB00" "0xFFFFABFF", THEN conjunct2, THEN conjunct2, THEN conjunct2, THEN mp, OF agree]
  have val: "GetNumConditionalRequirements 0x0000AB00 = 171"
    using GetNumConditionalRequirements_bits_8_15 [of "0x0000AB00" "0x0000AB00", THEN conjunct1]
    by simp
  show ?thesis
    by (intro conjI) (fact field same val)+
qed

subsection \<open>Renderings of the flag words\<close>

lemma GenericRequirementFlags_String_pairs:
  "GenericRequirementFlags_String kind_name f =
     key_value_pairs
       [(''key_arg'', FormatBool (HasKeyArgument f)),
        (''extra_arg'', FormatBool (HasExtraArgument f)),
        (''kind'', kind_name (GR_Kind f))]"
  by (simp add: GenericRequirementFlags_String_def)

lemma ProtocolRequirementFlags_String_pairs:
  "ProtocolRequirementFlags_String kind_name f =
     key_value_pairs
       [(''kind'', kind_name (PR_Kind f)),
        (''instance'', FormatBool (IsInstance f)),
        (''async'', FormatBool (IsAsync f)),
        (''signed_with_addr'', FormatBool (IsSignedWithAddress f)),
        (''extra_discriminator'', FormatInt (uint (ExtraDiscriminator f))),
        (''function_impl'', FormatBool (IsFunctionImpl f))]"
  by (simp add: ProtocolRequirementFlags_String_def)

lemma ConformanceFlags_String_pairs:
  "ConformanceFlags_String kind_name f =
     key_value_pairs
       [(''retroactive'', FormatBool (IsRetroactive f)),
        (''synthesized_nonunique'', FormatBool (IsSynthesizedNonUnique f)),
        (''num_cond_reqs'', FormatInt (GetNumConditionalRequirements f)),
        (''has_resilient_witnesses'', FormatBool (HasResilientWitnesses f)),
        (''has_generic_witness_table'', FormatBool (HasGenericWitnessTable f)),
        (''type_reference_kind'', kind_name (GetTypeReferenceKind f))]"
  by (simp add: ConformanceFlags_String_def)

text \<open>
  C5: the rendering of a flag word is the comma-separated list of its
  \<open>key: value\<close> pairs in the fixed order of its decoder, and each value is
  the text of what the decoder returns on that word: \<open>true\<close> or \<open>false\<close>
  for a flag, the decimal number for a count or discriminator, the kind's
  name for a kind.
\<close>

theorem flag_renderings_fixed_order:
  "GenericRequirementFlags_String gr_name g =
     key_value_pairs
       [(''key_arg'', FormatBool (HasKeyArgument g)),
        (''extra_arg'', FormatBool (HasExtraArgument g)),
        (''kind'', gr_name (GR_Kind g))] \<and>
   ProtocolRequirementFlags_String pr_name p =
     key_value_pairs
       [(''kind'', pr_name (PR_Kind p)),
        (''instance'', FormatBool (IsInstance p)),
        (''async'', FormatBool (IsAsync p)),
        (''signed_with_addr'', FormatBool (IsSignedWithAddress p)),
        (''extra_discriminator'', FormatInt (uint (ExtraDiscriminator p))),
        (''function_impl'', FormatBool (IsFunctionImpl p))] \<and>
   ConformanceFlags_String ref_name c =
     key_value_pairs
       [(''retroactive'', FormatBool (IsRetroactive c)),
        (''synthesized_nonunique'', FormatBool (IsSynthesizedNonUnique c)),
        (''num_cond_reqs'', FormatInt (GetNumConditionalRequirements c)),
        (''has_resilient_witnesses'', FormatBool (HasResilientWitnesses c)),
        (''has_generic_witness_table'', FormatBool (HasGenericWitnessTable c)),
        (''type_reference_kind'', ref_name (GetTypeReferenceKind c))]"
  by (intro conjI)
     (rule GenericRequirementFlags_String_pairs ProtocolRequirementFlags_String_pairs
        ConformanceFlags_String_pairs)+

subsection \<open>Kinds outside the named variants\<close>

lemma low_five: "(f :: 32 word) AND 0x1F = take_bit 5 f"
  by (simp add: take_bit_eq_mask mask_eq_exp_minus_1)

lemma GR_Kind_unat: "unat (GR_Kind f) = unat f mod 32"
  by (simp add: GR_Kind_def low_five unsigned_ucast_eq unsigned_take_bit_eq take_bit_eq_mod
        unat_mod)

lemmas GRKind_values =
  GRKindProtocol_def GRKindSameType_def GRKindBaseClass_def GRKindSameConformance_def
  GRKindLayout_def

lemmas referenceKind_values =
  DirectTypeDescriptor_def IndirectTypeDescriptor_def DirectObjCClassName_def
  IndirectObjCClass_def

lemma GRKind_String_unnamed:
  assumes "unat k \<notin> {0, 1, 2, 3, 31}"
  shows "GRKind_String k = ''GRKind('' @ FormatUint (unat k) @ '')''"
proof -
  have "unat k \<noteq> unat (0 :: 8 word)" "unat k \<noteq> unat (1 :: 8 word)"
    "unat k \<noteq> unat (2 :: 8 word)" "unat k \<noteq> unat (3 :: 8 word)"
    "unat k \<noteq> unat (0x1F :: 8 word)"
    using assms by simp_all
  then have "k \<noteq> 0" "k \<noteq> 1" "k \<noteq> 2" "k \<noteq> 3" "k \<noteq> 0x1F"
    by (simp_all only: word_unat_eq_iff not_False_eq_True)
  moreover have "FormatInt (uint k) = FormatUint (unat k)"
    by (simp only: uint_nat FormatInt_nat)
  ultimately show ?thesis
    by (simp add: GRKind_String_def GRKind_values)
qed

lemma referenceKind_String_unnamed:
  assumes "4 \<le> unat k"
  shows "referenceKind_String k = ''referenceKind('' @ FormatUint (unat k) @ '')''"
proof -
  have "unat k \<noteq> unat (0 :: 32 word)" "unat k \<noteq> unat (1 :: 32 word)"
    "unat k \<noteq> unat (2 :: 32 word)" "unat k \<noteq> unat (3 :: 32 word)"
    using assms by simp_all
  then have "k \<noteq> 0" "k \<noteq> 1" "k \<noteq> 2" "k \<noteq> 3"
    by (simp_all only: word_unat_eq_iff not_False_eq_True)
  moreover have "FormatInt (uint k) = FormatUint (unat k)"
    by (simp only: uint_nat FormatInt_nat)
  ultimately show ?thesis
    by (simp add: referenceKind_String_def referenceKind_values)
qed

text \<open>
  C8: a kind field that holds a value outside the named variants is decoded
  all the same. For a generic-requirement flag word whose 5-bit kind field is
  not 0, 1, 2, 3 or \<open>0x1F\<close>, \<open>Kind\<close> returns the field's value and the
  rendering ends with \<open>kind: GRKind(n)\<close> for that value \<open>n\<close> in decimal; for a
  conformance flag word whose 3-bit type-reference kind is 4 to 7,
  \<open>GetTypeReferenceKind\<close> returns the field's value and the rendering ends
  with \<open>type_reference_kind: referenceKind(n)\<close>.
\<close>

theorem unknown_kinds_render_raw:
  "(unat g mod 32 \<notin> {0, 1, 2, 3, 31} \<longrightarrow>
      unat (GR_Kind g) = unat g mod 32 \<and>
      GenericRequirementFlags_String GRKind_String g =
        key_value_pairs
          [(''key_arg'', FormatBool (HasKeyArgument g)),
           (''extra_arg'', FormatBool (HasExtraArgument g)),
           (''kind'', ''GRKind('' @ FormatUint (unat g mod 32) @ '')'')]) \<and>
   (4 \<le> (unat c div 8) mod 8 \<longrightarrow>
      unat (GetTypeReferenceKind c) = (unat c div 8) mod 8 \<and>
      ConformanceFlags_String referenceKind_String c =
        key_value_pairs
          [(''retroactive'', FormatBool (IsRetroactive c)),
           (''synthesized_nonunique'', FormatBool (IsSynthesizedNonUnique c)),
           (''num_cond_reqs'', FormatInt (GetNumConditionalRequirements c)),
           (''has_resilient_witnesses'', FormatBool (HasResilientWitnesses c)),
           (''has_generic_witness_table'', FormatBool (HasGenericWitnessTable c)),
           (''type_reference_kind'',
              ''referenceKind('' @ FormatUint ((unat c div 8) mod 8) @ '')'')])"
proof (intro conjI impI)
  assume h: "unat g mod 32 \<notin> {0, 1, 2, 3, 31}"
  show "unat (GR_Kind g) = unat g mod 32"
    by (rule GR_Kind_unat)
  from h have "unat (GR_Kind g) \<notin> {0, 1, 2, 3, 31}"
    by (simp add: GR_Kind_unat)
  then have "GRKind_String (GR_Kind g) = ''GRKind('' @ FormatUint (unat g mod 32) @ '')''"
    using GRKind_String_unnamed [of "GR_Kind g"] by (simp add: GR_Kind_unat)
  then show "GenericRequirementFlags_String GRKind_String g =
        key_value_pairs
          [(''key_arg'', FormatBool (HasKeyArgument g)),
           (''extra_arg'', FormatBool (HasExtraArgument g)),
           (''kind'', ''GRKind('' @ FormatUint (unat g mod 32) @ '')'')]"
    by (simp only: GenericRequirementFlags_String_pairs)
next
  assume h: "4 \<le> (unat c div 8) mod 8"
  show "unat (GetTypeReferenceKind c) = (unat c div 8) mod 8"
    by (rule GetTypeReferenceKind_unat)
  from h have "4 \<le> unat (GetTypeReferenceKind c)"
    by (simp add: GetTypeReferenceKind_unat)
  then have "referenceKind_String (GetTypeReferenceKind c) =
      ''referenceKind('' @ FormatUint ((unat c div 8) mod 8) @ '')''"
    using referenceKind_String_unnamed [of "GetTypeReferenceKind c"]
    by (simp add: GetTypeReferenceKind_unat)
  then show "ConformanceFlags_String referenceKind_String c =
        key_value_pairs
          [(''retroactive'', FormatBool (IsRetroactive c)),
           (''synthesized_nonunique'', FormatBool (IsSynthesizedNonUnique c)),
           (''num_cond_reqs'', FormatInt (GetNumConditionalRequirements c)),
           (''has_resilient_witnesses'', FormatBool (HasResilientWitnesses c)),
           (''has_generic_witness_table'', FormatBool (HasGenericWitnessTable c)),
           (''type_reference_kind'',
              ''referenceKind('' @ FormatUint ((unat c div 8) mod 8) @ '')'')]"
    by (simp only: ConformanceFlags_String_pairs)
qed

theorem unknown_kinds_render_raw_witness:
  "unat (0x85 :: 32 word) mod 32 \<notin> {0, 1, 2, 3, 31} \<and>
   unat (GR_Kind 0x85) = 5 \<and>
   GenericRequirementFlags_String GRKind_String 0x85 =
     ''key_arg: true, extra_arg: false, kind: GRKind(5)'' \<and>
   4 \<le> (unat (0x3FF28 :: 32 word) div 8) mod 8 \<and>
   unat (GetTypeReferenceKind 0x3FF28) = 5 \<and>
   ConformanceFlags_String referenceKind_String 0x3FF28 =
     ''retroactive: false, synthesized_nonunique: false, num_cond_reqs: 255, has_resilient_witnesses: true, has_generic_witness_table: true, type_reference_kind: referenceKind(5)''"
proof -
  have hg: "unat (0x85 :: 32 word) mod 32 \<notin> {0, 1, 2, 3, 31}"
    by simp
  have hc: "4 \<le> (unat (0x3FF28 :: 32 word) div 8) mod 8"
    by simp
  note gr = unknown_kinds_render_raw [of "0x85" "0x3FF28", THEN conjunct1, THEN mp, OF hg]
  note cf = unknown_kinds_render_raw [of "0x85" "0x3FF28", THEN conjunct2, THEN mp, OF hc]
  have g1: "unat (GR_Kind 0x85) = 5"
    using gr [THEN conjunct1] by simp
  have g2: "GenericRequirementFlags_String GRKind_String 0x85 =
     ''key_arg: true, extra_arg: false, kind: GRKind(5)''"
    using gr [THEN conjunct2]
    by (simp add: HasKeyArgument_def HasExtraArgument_def FormatBool_def FormatUint.simps digit_def)
  have c1: "unat (GetTypeReferenceKind 0x3FF28) = 5"
    using cf [THEN conjunct1] by simp
  have c2: "ConformanceFlags_String referenceKind_String 0x3FF28 =
     ''retroactive: false, synthesized_nonunique: false, num_cond_reqs: 255, has_resilient_witnesses: true, has_generic_witness_table: true, type_reference_kind: referenceKind(5)''"
    using cf [THEN conjunct2]
    by (simp add: IsRetroactive_def IsSynthesizedNonUnique_def HasResilientWitnesses_def
          HasGenericWitnessTable_def IsRetroactiveMask_def IsSynthesizedNonUniqueMask_def
          HasResilientWitnessesMask_def HasGenericWitnessTableMask_def
          GetNumConditionalRequirements_unat FormatBool_def FormatInt_def FormatUint.simps
          digit_def)
  show ?thesis
    by (intro conjI) (fact hg g1 g2 hc c1 c2)+
qed

subsection \<open>Field descriptor kinds\<close>

lemmas FieldDescriptorKind_values =
  Struct_def Class_def Enum_def MultiPayloadEnum_def Protocol_def ClassProtocol_def
  ObjCProtocol_def ObjCClass_def

lemma IsEnum_unat: "IsEnum f \<longleftrightarrow> unat (FDHeader.Kind (Field.Descriptor f)) \<in> {2, 3}"
  by (simp add: IsEnum_def FieldDescriptorKind_values word_unat_eq_iff)

lemma IsClass_unat: "IsClass f \<longleftrightarrow> unat (FDHeader.Kind (Field.Descriptor f)) \<in> {1, 7}"
  by (simp add: IsClass_def FieldDescriptorKind_values word_unat_eq_iff)

lemma IsProtocol_unat:
  "IsProtocol f \<longleftrightarrow> unat (FDHeader.Kind (Field.Descriptor f)) \<in> {4, 5, 6}"
  by (simp add: IsProtocol_def FieldDescriptorKind_values word_unat_eq_iff)

text \<open>
  C7: \<open>IsEnum\<close> holds exactly for the kinds Enum and MultiPayloadEnum (2 and
  3), \<open>IsClass\<close> exactly for Class and ObjCClass (1 and 7), \<open>IsProtocol\<close>
  exactly for Protocol, ClassProtocol and ObjCProtocol (4, 5 and 6).
\<close>

theorem field_kind_classification:
  "(IsEnum f \<longleftrightarrow> FDHeader.Kind (Field.Descriptor f) \<in> {Enum, MultiPayloadEnum}) \<and>
   (IsClass f \<longleftrightarrow> FDHeader.Kind (Field.Descriptor f) \<in> {Class, ObjCClass}) \<and>
   (IsProtocol f \<longleftrightarrow>
      FDHeader.Kind (Field.Descriptor f) \<in> {Protocol, ClassProtocol, ObjCProtocol}) \<and>
   (IsEnum f \<longleftrightarrow> unat (FDHeader.Kind (Field.Descriptor f)) \<in> {2, 3}) \<and>
   (IsClass f \<longleftrightarrow> unat (FDHeader.Kind (Field.Descriptor f)) \<in> {1, 7}) \<and>
   (IsProtocol f \<longleftrightarrow> unat (FDHeader.Kind (Field.Descriptor f)) \<in> {4, 5, 6})"
proof (intro conjI)
  show "IsEnum f \<longleftrightarrow> FDHeader.Kind (Field.Descriptor f) \<in> {Enum, MultiPayloadEnum}"
    by (simp add: IsEnum_def)
  show "IsClass f \<longleftrightarrow> FDHeader.Kind (Field.Descriptor f) \<in> {Class, ObjCClass}"
    by (simp add: IsClass_def)
  show "IsProtocol f \<longleftrightarrow>
      FDHeader.Kind (Field.Descriptor f) \<in> {Protocol, ClassProtocol, ObjCProtocol}"
    by (simp add: IsProtocol_def)
qed (rule IsEnum_unat IsClass_unat IsProtocol_unat)+

text \<open>
  C9: no field is classified twice, and a field whose kind is Struct or lies
  outside the eight variants is neither an enum nor a class nor a protocol.
\<close>

theorem field_predicates_exclusive:
  "\<not> (IsEnum f \<and> IsClass f) \<and> \<not> (IsEnum f \<and> IsProtocol f) \<and> \<not> (IsClass f \<and> IsProtocol f) \<and>
   (FDHeader.Kind (Field.Descriptor f) = Struct \<or>
    FDHeader.Kind (Field.Descriptor f) \<notin>
      {Struct, Class, Enum, MultiPayloadEnum, Protocol, ClassProtocol, ObjCProtocol, ObjCClass}
    \<longrightarrow> \<not> IsEnum f \<and> \<not> IsClass f \<and> \<not> IsProtocol f)"
proof (intro conjI impI)
  show "\<not> (IsEnum f \<and> IsClass f)"
    by (auto simp add: IsEnum_unat IsClass_unat)
  show "\<not> (IsEnum f \<and> IsProtocol f)"
    by (auto simp add: IsEnum_unat IsProtocol_unat)
  show "\<not> (IsClass f \<and> IsProtocol f)"
    by (auto simp add: IsClass_unat IsProtocol_unat)
next
  assume h: "FDHeader.Kind (Field.Descriptor f) = Struct \<or>
    FDHeader.Kind (Field.Descriptor f) \<notin>
      {Struct, Class, Enum, MultiPayloadEnum, Protocol, ClassProtocol, ObjCProtocol, ObjCClass}"
  then show "\<not> IsEnum f"
    by (auto simp add: IsEnum_def FieldDescriptorKind_values)
  from h show "\<not> IsClass f"
    by (auto simp add: IsClass_def FieldDescriptorKind_values)
  from h show "\<not> IsProtocol f"
    by (auto simp add: IsProtocol_def FieldDescriptorKind_values)
qed

theorem field_predicates_exclusive_witness:
  "FDHeader.Kind (Field.Descriptor (field_of_kind Struct)) = Struct \<and>
   \<not> IsEnum (field_of_kind Struct) \<and> \<not> IsClass (field_of_kind Struct) \<and>
   \<not> IsProtocol (field_of_kind Struct) \<and>
   FDHeader.Kind (Field.Descriptor (field_of_kind 8)) \<notin>
      {Struct, Class, Enum, MultiPayloadEnum, Protocol, ClassProtocol, ObjCProtocol, ObjCClass} \<and>
   \<not> IsEnum (field_of_kind 8) \<and> \<not> IsClass (field_of_kind 8) \<and> \<not> IsProtocol (field_of_kind 8) \<and>
   IsEnum (field_of_kind Enum) \<and> \<not> IsClass (field_of_kind Enum) \<and>
   \<not> IsProtocol (field_of_kind Enum)"
proof -
  have s: "FDHeader.Kind (Field.Descriptor (field_of_kind Struct)) = Struct"
    by (simp add: field_of_kind_def)
  have u: "FDHeader.Kind (Field.Descriptor (field_of_kind 8)) \<notin>
      {Struct, Class, Enum, MultiPayloadEnum, Protocol, ClassProtocol, ObjCProtocol, ObjCClass}"
    by (simp add: field_of_kind_def FieldDescriptorKind_values)
  note at_struct = field_predicates_exclusive
    [of "field_of_kind Struct", THEN conjunct2, THEN conjunct2, THEN conjunct2, THEN mp,
     OF disjI1, OF s]
  note at_unnamed = field_predicates_exclusive
    [of "field_of_kind 8", THEN conjunct2, THEN conjunct2, THEN conjunct2, THEN mp,
     OF disjI2, OF u]
  have e: "IsEnum (field_of_kind Enum)"
    by (simp add: IsEnum_def field_of_kind_def)
  have ec: "\<not> IsClass (field_of_kind Enum)"
    using field_predicates_exclusive [of "field_of_kind Enum"] e by blast
  have ep: "\<not> IsProtocol (field_of_kind Enum)"
    using field_predicates_exclusive [of "field_of_kind Enum"] e by blast
  show ?thesis
    using s u at_struct at_unnamed e ec ep by (intro conjI) (elim conjE, assumption)+
qed

subsection \<open>Rendering of a protocol\<close>

lemma Descriptor_String_lines:
  "Descriptor_String flags_text d =
     ''Flags: ('' @ flags_text (Descriptor.Flags d) @ '')'' @ [LF] @
     ''NumRequirementsInSignature: '' @ FormatInt (uint (NumRequirementsInSignature d)) @ [LF] @
     ''NumRequirements:            '' @ FormatInt (uint (NumRequirements d))"
  by (simp add: Descriptor_String_def)

text \<open>
  C6, as stated: the rendering of a protocol contains the AssociatedType line
  if and only if the header's \<open>AssociatedTypeNamesOffset\<close> is nonzero. It
  fails for a protocol without associated types whose parent has one: the
  header's offset is zero, and the rendering of the parent, which follows the
  separator, brings its own \<open>AssociatedType: Element\<close> line into the text.
\<close>

theorem Protocol_String_contains_counterexample:
  "\<not> (Contains (Protocol_String decimal_flags Child_protocol) (LF # ''AssociatedType: '')
        \<longleftrightarrow> AssociatedTypeNamesOffset (Protocol.Descriptor Child_protocol) \<noteq> 0)"
  by (simp add: Child_protocol_def Base_protocol_def Descriptor_String_def decimal_flags_def
        FormatInt_def FormatUint.simps digit_def)

text \<open>
  C6, amended: the rendering of a protocol is made of these parts, in this
  order: the Name line; the protocol's own AssociatedType line, present
  exactly when the header's \<open>AssociatedTypeNamesOffset\<close> is nonzero; the Flags
  line, the NumRequirementsInSignature line and the NumRequirements line,
  always present; and, exactly when the header's \<open>ParentOffset\<close> is nonzero,
  the \<open>---\<close> separator followed by \<open>Parent\<close> and the rendering of the parent
  (\<open><nil>\<close> for a nil parent). The parent's rendering is a rendering of the
  same shape, so that it may hold lines of its own.
\<close>

theorem Protocol_String_segments:
  "Protocol_String flags_text p =
     ''Name:           '' @ Protocol.Name p @ [LF] @
     (if AssociatedTypeNamesOffset (Protocol.Descriptor p) \<noteq> 0
      then ''AssociatedType: '' @ AssociatedType p @ [LF]
      else []) @
     ''Flags: ('' @ flags_text (Descriptor.Flags (Protocol.Descriptor p)) @ '')'' @ [LF] @
     ''NumRequirementsInSignature: '' @
       FormatInt (uint (NumRequirementsInSignature (Protocol.Descriptor p))) @ [LF] @
     ''NumRequirements:            '' @
       FormatInt (uint (NumRequirements (Protocol.Descriptor p))) @
     (if ParentOffset (Protocol.Descriptor p) \<noteq> 0
      then [LF] @ ''---'' @ [LF] @ ''Parent '' @
           (case Parent p of
              None \<Rightarrow> ''<nil>''
            | Some q \<Rightarrow> Protocol_String flags_text q) @ [LF]
      else [])"
  by (cases p) (simp add: Descriptor_String_lines Let_def)

end
